theory Spec2Isabelle
  imports Main
begin

section \<open>Network assurance and verification orchestration of the SisterSafe web client\<close>

text \<open>
  The development embeds the wallet-facing control flow of
  \<^verbatim>\<open>apps/web/src/app/page.tsx\<close>: \<^verbatim>\<open>getEthereum\<close>, \<^verbatim>\<open>addCeloNetwork\<close>,
  \<^verbatim>\<open>ensureCeloNetwork\<close> and \<^verbatim>\<open>handleVerify\<close>, and the refresh effect of the later
  revision of the same page (the one that watches the verification transaction).

  The wallet provider, the wagmi actions and \<^verbatim>\<open>window.ethereum\<close> are outside the
  repository. They are modelled as a \<^emph>\<open>world\<close>: for each kind of interaction, a function
  giving the answer to the k-th interaction of that kind. Every asynchronous function of
  the page becomes a function from the trace of interactions so far to its outcome and
  the extended trace. A rejected promise or a \<^verbatim>\<open>throw\<close> is the \<open>Inl\<close> branch of a sum.

  What the model takes for granted lies at that boundary: every request settles, by
  being accepted or by rejecting; a rejection carries an object with an optional
  \<^verbatim>\<open>code\<close>, \<^verbatim>\<open>data.code\<close> and \<^verbatim>\<open>message\<close>; the answer to \<^verbatim>\<open>eth_chainId\<close> is a string;
  \<^verbatim>\<open>switchChain\<close> (of \<^verbatim>\<open>useSwitchChain\<close>) is a request like the others, which is accepted or
  rejects; chain ids are below \<open>2 ^ 53\<close>, where the numbers of the language are exact.
\<close>

subsection \<open>Errors thrown by the provider\<close>

text \<open>
  The provider boundary rejects with objects \<^verbatim>\<open>{code, message}\<close>, sometimes with a nested
  \<^verbatim>\<open>data.code\<close>. An absent field is \<open>None\<close>.
\<close>

record js_error =
  code :: "int option"
  data_code :: "int option"
  message :: "string option"

text \<open>\<^verbatim>\<open>new Error(msg)\<close>: a message and no code.\<close>

definition new_Error :: "string \<Rightarrow> js_error" where
  "new_Error msg = \<lparr>code = None, data_code = None, message = Some msg\<rparr>"

text \<open>
  \<^verbatim>\<open>e?.code || e?.data?.code\<close>: the first operand when it is truthy (a number other than
  0), the second operand otherwise.
\<close>

definition code_or_data_code :: "js_error \<Rightarrow> int option" where
  "code_or_data_code e =
     (case code e of
        Some c \<Rightarrow> if c \<noteq> 0 then Some c else data_code e
      | None \<Rightarrow> data_code e)"

text \<open>\<^verbatim>\<open>e?.message || ''\<close>.\<close>

definition message_or_empty :: "js_error \<Rightarrow> string" where
  "message_or_empty e = (case message e of Some m \<Rightarrow> m | None \<Rightarrow> [])"

subsection \<open>String helpers of the language\<close>

fun starts_with :: "string \<Rightarrow> string \<Rightarrow> bool" where
  "starts_with s [] = True"
| "starts_with [] (c # cs) = False"
| "starts_with (d # ds) (c # cs) = (d = c \<and> starts_with ds cs)"

text \<open>\<^verbatim>\<open>s.includes(sub)\<close>: \<open>sub\<close> occurs somewhere in \<open>s\<close>.\<close>

fun str_includes :: "string \<Rightarrow> string \<Rightarrow> bool" where
  "str_includes [] sub = (sub = [])"
| "str_includes (d # ds) sub = (starts_with (d # ds) sub \<or> str_includes ds sub)"

text \<open>
  \<^verbatim>\<open>parseInt(s, 16)\<close>: leading white space is skipped, then an optional sign, then an
  optional \<^verbatim>\<open>0x\<close> or \<^verbatim>\<open>0X\<close>, then the longest run of hexadecimal digits; with no digit
  the result is \<^verbatim>\<open>NaN\<close>, here \<open>None\<close>. White space is the ASCII white space; the result
  is the exact integer, which is what the comparison with a chain id below \<open>2 ^ 53\<close> sees.
\<close>

definition is_white_space :: "char \<Rightarrow> bool" where
  "is_white_space c = (c \<in> set [CHR 0x09, CHR 0x0A, CHR 0x0B, CHR 0x0C, CHR 0x0D, CHR 0x20])"

definition hex_digit :: "char \<Rightarrow> int option" where
  "hex_digit c =
     (let n = (of_char c :: nat) in
      if 48 \<le> n \<and> n \<le> 57 then Some (int n - 48)
      else if 97 \<le> n \<and> n \<le> 102 then Some (int n - 87)
      else if 65 \<le> n \<and> n \<le> 70 then Some (int n - 55)
      else None)"

fun hex_value :: "int \<Rightarrow> string \<Rightarrow> int" where
  "hex_value acc [] = acc"
| "hex_value acc (c # cs) =
     (case hex_digit c of
        None \<Rightarrow> acc
      | Some d \<Rightarrow> hex_value (16 * acc + d) cs)"

definition parse_digits :: "string \<Rightarrow> int option" where
  "parse_digits s =
     (case s of
        [] \<Rightarrow> None
      | c # cs \<Rightarrow> (case hex_digit c of None \<Rightarrow> None | Some d \<Rightarrow> Some (hex_value 0 s)))"

definition strip_0x :: "string \<Rightarrow> string" where
  "strip_0x s =
     (case s of
        c # d # rest \<Rightarrow> if c = CHR ''0'' \<and> (d = CHR ''x'' \<or> d = CHR ''X'') then rest else s
      | _ \<Rightarrow> s)"

definition parseInt16 :: "string \<Rightarrow> int option" where
  "parseInt16 s =
     (case dropWhile is_white_space s of
        [] \<Rightarrow> None
      | c # cs \<Rightarrow>
          if c = CHR ''-'' then map_option uminus (parse_digits (strip_0x cs))
          else if c = CHR ''+'' then parse_digits (strip_0x cs)
          else parse_digits (strip_0x (c # cs)))"

subsection \<open>The world outside the page\<close>

text \<open>
  \<open>celoSepolia_id\<close> is \<^verbatim>\<open>celoSepolia.id\<close> of \<^verbatim>\<open>lib/wagmi\<close>, which is not part of the
  sources at hand: it is a parameter. The other fields answer the k-th evaluation of
  \<^verbatim>\<open>getEthereum()\<close> (is \<^verbatim>\<open>window.ethereum\<close> there?), the k-th \<^verbatim>\<open>eth_chainId\<close> request,
  the k-th \<^verbatim>\<open>switchChain\<close> call, the k-th \<^verbatim>\<open>wallet_addEthereumChain\<close> request and the
  k-th \<^verbatim>\<open>writeContract\<close> call of \<^verbatim>\<open>verifyUser\<close>. A request that is accepted answers
  \<open>None\<close> or \<open>Inr\<close>; one that rejects answers the error.
\<close>

record world =
  celoSepolia_id :: int
  window_ethereum :: "nat \<Rightarrow> bool"
  eth_chainId :: "nat \<Rightarrow> js_error + string"
  wallet_switchChain :: "nat \<Rightarrow> js_error option"
  wallet_addChain :: "nat \<Rightarrow> js_error option"
  write_verifyUser :: "nat \<Rightarrow> js_error + string"

datatype event =
    GetEthereum bool
  | ChainIdRequest "js_error + string"
  | SwitchRequest int "js_error option"
  | AddRequest int "js_error option"
  | WriteContract "js_error + string"
  | Sleep nat
  | Alert string
  | ConsoleLog "string list"
  | ConsoleError string js_error

type_synonym trace = "event list"

fun is_get :: "event \<Rightarrow> bool" where
  "is_get (GetEthereum b) = True"
| "is_get e = False"

fun is_read :: "event \<Rightarrow> bool" where
  "is_read (ChainIdRequest r) = True"
| "is_read e = False"

fun is_switch :: "event \<Rightarrow> bool" where
  "is_switch (SwitchRequest i r) = True"
| "is_switch e = False"

fun is_add :: "event \<Rightarrow> bool" where
  "is_add (AddRequest i r) = True"
| "is_add e = False"

fun is_write :: "event \<Rightarrow> bool" where
  "is_write (WriteContract r) = True"
| "is_write e = False"

fun is_sleep :: "event \<Rightarrow> bool" where
  "is_sleep (Sleep n) = True"
| "is_sleep e = False"

definition count_ev :: "(event \<Rightarrow> bool) \<Rightarrow> trace \<Rightarrow> nat" where
  "count_ev p tr = length (filter p tr)"

text \<open>A network call is a request to the provider or a contract write.\<close>

definition is_network_call :: "event \<Rightarrow> bool" where
  "is_network_call e = (is_read e \<or> is_switch e \<or> is_add e \<or> is_write e)"

subsection \<open>The primitive interactions\<close>

definition getEthereum :: "world \<Rightarrow> trace \<Rightarrow> bool \<times> trace" where
  "getEthereum w tr =
     (let b = window_ethereum w (count_ev is_get tr) in (b, tr @ [GetEthereum b]))"

definition request_chainId :: "world \<Rightarrow> trace \<Rightarrow> (js_error + string) \<times> trace" where
  "request_chainId w tr =
     (let r = eth_chainId w (count_ev is_read tr) in (r, tr @ [ChainIdRequest r]))"

definition switchChain :: "world \<Rightarrow> trace \<Rightarrow> js_error option \<times> trace" where
  "switchChain w tr =
     (let r = wallet_switchChain w (count_ev is_switch tr)
      in (r, tr @ [SwitchRequest (celoSepolia_id w) r]))"

definition request_addChain :: "world \<Rightarrow> trace \<Rightarrow> js_error option \<times> trace" where
  "request_addChain w tr =
     (let r = wallet_addChain w (count_ev is_add tr)
      in (r, tr @ [AddRequest (celoSepolia_id w) r]))"

definition writeContract :: "world \<Rightarrow> trace \<Rightarrow> (js_error + string) \<times> trace" where
  "writeContract w tr =
     (let r = write_verifyUser w (count_ev is_write tr) in (r, tr @ [WriteContract r]))"

subsection \<open>addCeloNetwork\<close>

text \<open>
  The condition under which \<^verbatim>\<open>addCeloNetwork\<close> treats a failed add request as
  "network already exists".
\<close>

definition alreadyRegistered :: "js_error \<Rightarrow> bool" where
  "alreadyRegistered addError =
     (let errorCode = code_or_data_code addError;
          errorMessage = message_or_empty addError
      in errorCode = Some 4902 \<or>
         errorCode = Some (- 32603) \<or>
         str_includes errorMessage ''same RPC endpoint'' \<or>
         str_includes errorMessage ''existing network'')"

definition addCeloNetwork :: "world \<Rightarrow> trace \<Rightarrow> (js_error + unit) \<times> trace" where
  "addCeloNetwork w tr =
     (case getEthereum w tr of
        (ethereum, tr1) \<Rightarrow>
          if \<not> ethereum then (Inl (new_Error ''MetaMask is not installed''), tr1)
          else
            (case request_addChain w tr1 of
               (None, tr2) \<Rightarrow> (Inr (), tr2)
             | (Some addError, tr2) \<Rightarrow>
                 if alreadyRegistered addError
                 then (Inr (), tr2 @ [ConsoleLog [''Network already exists in MetaMask, skipping add'']])
                 else (Inl addError, tr2)))"

subsection \<open>ensureCeloNetwork\<close>

text \<open>
  The condition of the handler around "add, then switch again": the caught error is
  taken for an add failure that means the network exists.
\<close>

definition addFailedBecauseExists :: "js_error \<Rightarrow> bool" where
  "addFailedBecauseExists addError =
     (let addErrorCode = code_or_data_code addError;
          addErrorMessage = message_or_empty addError
      in addErrorCode = Some (- 32603) \<or>
         str_includes addErrorMessage ''same RPC endpoint'' \<or>
         str_includes addErrorMessage ''existing network'')"

text \<open>The inner \<^verbatim>\<open>try\<close> block: add the network, then switch again.\<close>

definition addThenSwitch :: "world \<Rightarrow> trace \<Rightarrow> (js_error + unit) \<times> trace" where
  "addThenSwitch w tr =
     (case addCeloNetwork w tr of
        (Inl e, tr1) \<Rightarrow> (Inl e, tr1)
      | (Inr u, tr1) \<Rightarrow>
          (case switchChain w tr1 of
             (None, tr2) \<Rightarrow> (Inr (), tr2)
           | (Some e, tr2) \<Rightarrow> (Inl e, tr2)))"

text \<open>The switch with its fallbacks: the \<^verbatim>\<open>try\<close> around the first \<^verbatim>\<open>switchChain\<close>.\<close>

definition switchOrAdd :: "world \<Rightarrow> trace \<Rightarrow> (js_error + unit) \<times> trace" where
  "switchOrAdd w tr =
     (case switchChain w tr of
        (None, tr1) \<Rightarrow> (Inr (), tr1)
      | (Some switchError, tr1) \<Rightarrow>
          if code_or_data_code switchError = Some 4902 then
            (case addThenSwitch w tr1 of
               (Inr u, tr2) \<Rightarrow> (Inr (), tr2)
             | (Inl addError, tr2) \<Rightarrow>
                 if addFailedBecauseExists addError then
                   (case switchChain w tr2 of
                      (None, tr3) \<Rightarrow> (Inr (), tr3)
                    | (Some e, tr3) \<Rightarrow> (Inl e, tr3))
                 else (Inl addError, tr2))
          else (Inl switchError, tr1))"

definition maxAttempts :: nat where
  "maxAttempts = 10"

text \<open>
  The polling loop, entered with \<open>attempts = 0\<close>: wait 500 ms, read the chain id, return
  \<^verbatim>\<open>true\<close> on a match, count the attempt otherwise; after the loop, alert and return
  \<^verbatim>\<open>false\<close>.
\<close>

function waitForSwitch :: "world \<Rightarrow> nat \<Rightarrow> trace \<Rightarrow> (js_error + bool) \<times> trace" where
  "waitForSwitch w attempts tr =
     (if attempts < maxAttempts then
        (case request_chainId w (tr @ [Sleep 500]) of
           (Inl e, tr1) \<Rightarrow> (Inl e, tr1)
         | (Inr newChainId, tr1) \<Rightarrow>
             if parseInt16 newChainId = Some (celoSepolia_id w) then (Inr True, tr1)
             else waitForSwitch w (attempts + 1) tr1)
      else
        (Inr False,
         tr @ [Alert ''Please approve the network switch in your wallet and try again.'']))"
  by pat_completeness auto
termination
  by (relation "measure (\<lambda>(w, attempts, tr). maxAttempts - attempts)") auto

text \<open>The body of the outer \<^verbatim>\<open>try\<close> of \<^verbatim>\<open>ensureCeloNetwork\<close>.\<close>

definition ensureCeloNetwork_try :: "world \<Rightarrow> trace \<Rightarrow> (js_error + bool) \<times> trace" where
  "ensureCeloNetwork_try w tr =
     (case request_chainId w tr of
        (Inl e, tr1) \<Rightarrow> (Inl e, tr1)
      | (Inr currentChainId, tr1) \<Rightarrow>
          if parseInt16 currentChainId = Some (celoSepolia_id w) then (Inr True, tr1)
          else
            (case switchOrAdd w tr1 of
               (Inl e, tr2) \<Rightarrow> (Inl e, tr2)
             | (Inr u, tr2) \<Rightarrow> waitForSwitch w 0 tr2))"

definition ensureCeloNetwork :: "world \<Rightarrow> trace \<Rightarrow> (js_error + bool) \<times> trace" where
  "ensureCeloNetwork w tr =
     (case getEthereum w tr of
        (ethereum, tr0) \<Rightarrow>
          if \<not> ethereum then (Inr False, tr0 @ [Alert ''MetaMask is not installed''])
          else
            (case ensureCeloNetwork_try w tr0 of
               (Inr b, tr1) \<Rightarrow> (Inr b, tr1)
             | (Inl error, tr1) \<Rightarrow>
                 (Inr False,
                  tr1 @ [ConsoleError ''Error ensuring Celo network:'' error,
                         Alert (if code error = Some 4001
                                then ''Network switch was rejected. Please switch to Celo Sepolia manually.''
                                else ''Failed to switch to Celo Sepolia. Please switch manually in your wallet.'')])))"

subsection \<open>handleVerify\<close>

text \<open>
  The end of the \<^verbatim>\<open>try\<close> block of \<^verbatim>\<open>handleVerify\<close>: the contract write of \<^verbatim>\<open>verifyUser\<close>
  and the messages after it.
\<close>

definition handleVerify_submit :: "world \<Rightarrow> trace \<Rightarrow> (js_error + unit) \<times> trace" where
  "handleVerify_submit w tr =
     (case writeContract w tr of
        (Inl e, tr1) \<Rightarrow> (Inl e, tr1)
      | (Inr txHash, tr1) \<Rightarrow>
          (Inr (),
           tr1 @ [ConsoleLog [''Verification transaction sent:'', txHash],
                  Alert ''Verification transaction sent.'']))"

text \<open>
  The body of the \<^verbatim>\<open>try\<close> of \<^verbatim>\<open>handleVerify\<close>. \<open>isConnected\<close> is the value of the
  \<^verbatim>\<open>useAccount\<close> hook in the render that created the handler.
\<close>

definition handleVerify_try :: "world \<Rightarrow> bool \<Rightarrow> trace \<Rightarrow> (js_error + unit) \<times> trace" where
  "handleVerify_try w isConnected tr =
     (if \<not> isConnected then (Inr (), tr @ [Alert ''Please connect your wallet first.''])
      else
        (case ensureCeloNetwork w tr of
           (Inl e, tr1) \<Rightarrow> (Inl e, tr1)
         | (Inr isOnCelo, tr1) \<Rightarrow>
             if \<not> isOnCelo then (Inr (), tr1)
             else
               (case getEthereum w tr1 of
                  (ethereum, tr2) \<Rightarrow>
                    if ethereum then
                      (case request_chainId w tr2 of
                         (Inl e, tr3) \<Rightarrow> (Inl e, tr3)
                       | (Inr finalChainId, tr3) \<Rightarrow>
                           if parseInt16 finalChainId \<noteq> Some (celoSepolia_id w)
                           then (Inr (),
                                 tr3 @ [Alert ''Please switch to Celo Sepolia network before verifying.''])
                           else handleVerify_submit w tr3)
                    else handleVerify_submit w tr2)))"

definition handleVerify :: "world \<Rightarrow> bool \<Rightarrow> trace \<Rightarrow> (js_error + unit) \<times> trace" where
  "handleVerify w isConnected tr =
     (case handleVerify_try w isConnected tr of
        (Inr u, tr1) \<Rightarrow> (Inr (), tr1)
      | (Inl error, tr1) \<Rightarrow>
          (Inr (),
           tr1 @ [ConsoleError ''Error verifying user:'' error,
                  Alert (if (case message error of
                               None \<Rightarrow> False
                             | Some m \<Rightarrow> str_includes m ''chain'' \<or> str_includes m ''network'')
                         then ''Transaction failed. Please ensure you are on Celo Sepolia network.''
                         else ''Verification failed. Check console for details.'')]))"

subsection \<open>Reading a trace\<close>

text \<open>
  The polls of the loop: \<open>n\<close> rounds of "wait 500 ms, read the chain id", the first read
  being the \<open>k\<close>-th read of the session.
\<close>

definition polls :: "world \<Rightarrow> nat \<Rightarrow> nat \<Rightarrow> trace" where
  "polls w k n =
     concat (map (\<lambda>i. [Sleep 500, ChainIdRequest (eth_chainId w (k + i))]) [0..<n])"

text \<open>An answer to \<^verbatim>\<open>eth_chainId\<close> that parses to the target chain id.\<close>

definition on_target :: "world \<Rightarrow> js_error + string \<Rightarrow> bool" where
  "on_target w r =
     (case r of Inl e \<Rightarrow> False | Inr s \<Rightarrow> parseInt16 s = Some (celoSepolia_id w))"

text \<open>The \<open>j\<close>-th read answers a chain id that is not the target: the loop goes on.\<close>

definition poll_goes_on :: "world \<Rightarrow> nat \<Rightarrow> bool" where
  "poll_goes_on w j =
     (case eth_chainId w j of
        Inl e \<Rightarrow> False
      | Inr s \<Rightarrow> parseInt16 s \<noteq> Some (celoSepolia_id w))"

text \<open>The answer to the most recent \<^verbatim>\<open>eth_chainId\<close> request of a trace.\<close>

fun last_read :: "trace \<Rightarrow> (js_error + string) option" where
  "last_read [] = None"
| "last_read (e # es) =
     (case last_read es of
        Some r \<Rightarrow> Some r
      | None \<Rightarrow> (case e of ChainIdRequest r \<Rightarrow> Some r | _ \<Rightarrow> None))"

text \<open>
  The provider's active chain id as the trace last read it from the provider: none when
  the trace holds no read, or when the last read failed or did not parse.
\<close>

definition reported_chain :: "trace \<Rightarrow> int option" where
  "reported_chain evs =
     (case last_read evs of
        Some (Inr s) \<Rightarrow> parseInt16 s
      | _ \<Rightarrow> None)"


subsection \<open>Sample worlds\<close>

definition err_unrecognized :: js_error where
  "err_unrecognized =
     \<lparr>code = Some 4902, data_code = None, message = Some ''Unrecognized chain ID''\<rparr>"

definition err_declined :: js_error where
  "err_declined =
     \<lparr>code = Some 4001, data_code = None, message = Some ''User rejected the request.''\<rparr>"

definition err_internal :: js_error where
  "err_internal =
     \<lparr>code = Some (- 32603), data_code = None, message = Some ''Internal JSON-RPC error.''\<rparr>"

text \<open>A wallet that is on the target chain (id 11142220) and accepts everything.\<close>

definition world_on_target :: world where
  "world_on_target =
     \<lparr>celoSepolia_id = 11142220,
      window_ethereum = (\<lambda>k. True),
      eth_chainId = (\<lambda>k. Inr ''0xaa044c''),
      wallet_switchChain = (\<lambda>k. None),
      wallet_addChain = (\<lambda>k. None),
      write_verifyUser = (\<lambda>k. Inr ''0xabc'')\<rparr>"

text \<open>No wallet extension at all.\<close>

definition world_no_provider :: world where
  "world_no_provider = world_on_target\<lparr>window_ethereum := (\<lambda>k. False)\<rparr>"

text \<open>A wallet on chain 1 that accepts the switch and reports the target at the first poll.\<close>

definition world_switching :: world where
  "world_switching =
     world_on_target\<lparr>eth_chainId := (\<lambda>k. if k = 0 then Inr ''0x1'' else Inr ''0xaa044c'')\<rparr>"

text \<open>A wallet that accepts the switch request and stays on chain 1.\<close>

definition world_stuck :: world where
  "world_stuck = world_on_target\<lparr>eth_chainId := (\<lambda>k. Inr ''0x1'')\<rparr>"

text \<open>
  A wallet on chain 1 that does not know the target chain: the first switch fails with
  4902, the add request is accepted, the second switch is accepted, and the first poll
  reads the target.
\<close>

definition world_unknown_chain :: world where
  "world_unknown_chain =
     world_switching\<lparr>wallet_switchChain := (\<lambda>k. if k = 0 then Some err_unrecognized else None)\<rparr>"




text \<open>
  A wallet on the target chain whose handle is there for the first look-up only.
\<close>

definition world_provider_gone :: world where
  "world_provider_gone = world_on_target\<lparr>window_ethereum := (\<lambda>k. k = 0)\<rparr>"




subsection \<open>The refresh after confirmation\<close>

text \<open>
  The later revision of the page watches the verification transaction and refreshes
  the verified flag:
  \<^verbatim>\<open>
  const { data: isVerifiedData, refetch: refetchVerification } = useReadContract({
    ..., functionName: 'isVerified',
    args: address ? [address] : undefined,
    query: { enabled: !!address && isConnected },
  });
  const { isLoading: isVerifyingTx, isSuccess: isVerifySuccess } =
    useWaitForTransactionReceipt({ hash: verifyTxHash || undefined });
  useEffect(() => {
    if (isVerifySuccess) {
      refetchVerification(); setVerifying(false); setVerifyTxHash(null);
    }
  }, [isVerifySuccess, refetchVerification]);
  \<close>
  A render is the tuple of hook values the component function sees: the account, the
  watcher's \<^verbatim>\<open>isSuccess\<close>, and the identity of the \<^verbatim>\<open>refetch\<close> function object.
\<close>

record render =
  address :: "string option"
  isConnected :: bool
  isVerifySuccess :: bool
  refetchVerification :: nat











section \<open>Properties\<close>

lemma count_ev_append [simp]: "count_ev p (xs @ ys) = count_ev p xs + count_ev p ys"
  by (simp add: count_ev_def)

lemma count_ev_Nil [simp]: "count_ev p [] = 0"
  by (simp add: count_ev_def)

lemma count_ev_Cons [simp]: "count_ev p (x # xs) = (if p x then 1 else 0) + count_ev p xs"
  by (simp add: count_ev_def)

lemmas parse_defs =
  parseInt16_def is_white_space_def strip_0x_def parse_digits_def hex_digit_def

lemmas run_defs =
  ensureCeloNetwork_def ensureCeloNetwork_try_def getEthereum_def request_chainId_def
  switchOrAdd_def switchChain_def addThenSwitch_def addCeloNetwork_def request_addChain_def
  handleVerify_def handleVerify_try_def handleVerify_submit_def writeContract_def Let_def
  maxAttempts_def

lemmas error_defs =
  alreadyRegistered_def addFailedBecauseExists_def code_or_data_code_def
  message_or_empty_def new_Error_def err_unrecognized_def err_declined_def err_internal_def

subsection \<open>Counting and reading traces\<close>

lemma count_ev_none: "\<forall>e\<in>set evs. \<not> p e \<Longrightarrow> count_ev p evs = 0"
  by (simp add: count_ev_def)

lemma last_read_append:
  "last_read (xs @ ys) = (case last_read ys of Some r \<Rightarrow> Some r | None \<Rightarrow> last_read xs)"
  by (induction xs) (auto split: option.splits)


lemma reported_chain_snoc [simp]:
  "reported_chain (evs @ [ChainIdRequest (Inr s)]) = parseInt16 s"
  by (simp add: reported_chain_def last_read_append)


lemma polls_0 [simp]: "polls w k 0 = []"
  by (simp add: polls_def)

lemma polls_Suc:
  "polls w k (Suc n) = polls w k n @ [Sleep 500, ChainIdRequest (eth_chainId w (k + n))]"
  by (simp add: polls_def)

subsection \<open>The polling loop\<close>

text \<open>As long as the reads answer another chain, the loop only polls.\<close>

lemma waitForSwitch_skip:
  "attempts + m \<le> maxAttempts \<Longrightarrow> \<forall>i<m. poll_goes_on w (count_ev is_read tr + i) \<Longrightarrow>
   waitForSwitch w attempts tr =
     waitForSwitch w (attempts + m) (tr @ polls w (count_ev is_read tr) m)"
proof (induction m)
  case 0
  then show ?case by simp
next
  case (Suc m)
  let ?k = "count_ev is_read tr"
  let ?tr = "tr @ polls w ?k m"
  have cnt: "count_ev is_read (polls w ?k m) = m"
    by (induction m) (simp_all add: polls_Suc)
  have "poll_goes_on w (?k + m)" using Suc.prems by simp
  then obtain s where s: "eth_chainId w (?k + m) = Inr s"
    "parseInt16 s \<noteq> Some (celoSepolia_id w)"
    by (auto simp: poll_goes_on_def split: sum.splits)
  have lt: "attempts + m < maxAttempts" using Suc.prems by simp
  have "waitForSwitch w attempts tr = waitForSwitch w (attempts + m) ?tr"
    using Suc by simp
  also have "\<dots> = waitForSwitch w (attempts + m + 1) (?tr @ [Sleep 500, ChainIdRequest (Inr s)])"
    using lt s cnt by (subst waitForSwitch.simps) (simp add: request_chainId_def Let_def)
  finally show ?case using s by (simp add: polls_Suc)
qed

lemma waitForSwitch_match:
  assumes "m < maxAttempts" and "\<forall>i<m. poll_goes_on w (count_ev is_read tr + i)"
    and "on_target w (eth_chainId w (count_ev is_read tr + m))"
  shows "waitForSwitch w 0 tr = (Inr True, tr @ polls w (count_ev is_read tr) (Suc m))"
proof -
  let ?k = "count_ev is_read tr"
  have cnt: "count_ev is_read (polls w ?k m) = m"
    by (induction m) (simp_all add: polls_Suc)
  obtain s where s: "eth_chainId w (?k + m) = Inr s" "parseInt16 s = Some (celoSepolia_id w)"
    using assms(3) by (auto simp: on_target_def split: sum.splits)
  have "waitForSwitch w 0 tr = waitForSwitch w m (tr @ polls w ?k m)"
    using waitForSwitch_skip[of 0 m w tr] assms by simp
  also have "\<dots> = (Inr True, tr @ polls w ?k (Suc m))"
    using assms(1) s cnt
    by (subst waitForSwitch.simps) (simp add: request_chainId_def Let_def polls_Suc)
  finally show ?thesis .
qed

lemma waitForSwitch_error:
  assumes "m < maxAttempts" and "\<forall>i<m. poll_goes_on w (count_ev is_read tr + i)"
    and "eth_chainId w (count_ev is_read tr + m) = Inl e"
  shows "waitForSwitch w 0 tr = (Inl e, tr @ polls w (count_ev is_read tr) (Suc m))"
proof -
  let ?k = "count_ev is_read tr"
  have cnt: "count_ev is_read (polls w ?k m) = m"
    by (induction m) (simp_all add: polls_Suc)
  have "waitForSwitch w 0 tr = waitForSwitch w m (tr @ polls w ?k m)"
    using waitForSwitch_skip[of 0 m w tr] assms by simp
  also have "\<dots> = (Inl e, tr @ polls w ?k (Suc m))"
    using assms(1,3) cnt
    by (subst waitForSwitch.simps) (simp add: request_chainId_def Let_def polls_Suc)
  finally show ?thesis .
qed

lemma waitForSwitch_timeout:
  assumes "\<forall>i<maxAttempts. poll_goes_on w (count_ev is_read tr + i)"
  shows "waitForSwitch w 0 tr =
           (Inr False,
            tr @ polls w (count_ev is_read tr) maxAttempts @
              [Alert ''Please approve the network switch in your wallet and try again.''])"
proof -
  let ?k = "count_ev is_read tr"
  have "waitForSwitch w 0 tr = waitForSwitch w maxAttempts (tr @ polls w ?k maxAttempts)"
    using waitForSwitch_skip[of 0 maxAttempts w tr] assms by simp
  also have "\<dots> = (Inr False, tr @ polls w ?k maxAttempts @
      [Alert ''Please approve the network switch in your wallet and try again.''])"
    by (subst waitForSwitch.simps) simp
  finally show ?thesis .
qed

text \<open>
  What every run of the loop adds to the trace: only waits, reads and the final alert;
  at most \<open>maxAttempts - attempts\<close> reads; it returns \<open>true\<close> exactly when its last
  event is a read that answers the target chain.
\<close>

lemma waitForSwitch_frame:
  "\<exists>evs. snd (waitForSwitch w attempts tr) = tr @ evs \<and>
     (\<forall>e\<in>set evs. \<not> is_get e \<and> \<not> is_switch e \<and> \<not> is_add e \<and> \<not> is_write e) \<and>
     count_ev is_read evs \<le> maxAttempts - attempts \<and>
     count_ev is_sleep evs \<le> maxAttempts - attempts \<and>
     (if fst (waitForSwitch w attempts tr) = Inr True
      then \<exists>evs0 s. evs = evs0 @ [ChainIdRequest (Inr s)] \<and>
             parseInt16 s = Some (celoSepolia_id w)
      else \<forall>e\<in>set evs. \<forall>r. e = ChainIdRequest r \<longrightarrow> \<not> on_target w r)"
proof (induction w attempts tr rule: waitForSwitch.induct)
  case (1 w attempts tr)
  show ?case
  proof (cases "attempts < maxAttempts")
    case False
    then show ?thesis by (subst (1 2) waitForSwitch.simps) simp
  next
    case True
    let ?r = "eth_chainId w (count_ev is_read tr)"
    let ?tr1 = "tr @ [Sleep 500, ChainIdRequest ?r]"
    have req: "request_chainId w (tr @ [Sleep 500]) = (?r, ?tr1)"
      by (simp add: request_chainId_def Let_def)
    show ?thesis
    proof (cases ?r)
      case (Inl e)
      then show ?thesis using True req
        by (subst (1 2) waitForSwitch.simps) (simp add: on_target_def)
    next
      case (Inr s)
      show ?thesis
      proof (cases "parseInt16 s = Some (celoSepolia_id w)")
        case yes: True
        then show ?thesis using True req Inr
          by (subst (1 2) waitForSwitch.simps) simp
      next
        case no: False
        have eq: "waitForSwitch w attempts tr = waitForSwitch w (attempts + 1) ?tr1"
          using True req Inr no by (subst waitForSwitch.simps) simp
        from "1.IH"[OF True req[symmetric] Inr no]
        obtain evs where evs: "snd (waitForSwitch w (attempts + 1) ?tr1) = ?tr1 @ evs"
          "\<forall>e\<in>set evs. \<not> is_get e \<and> \<not> is_switch e \<and> \<not> is_add e \<and> \<not> is_write e"
          "count_ev is_read evs \<le> maxAttempts - (attempts + 1)"
          "count_ev is_sleep evs \<le> maxAttempts - (attempts + 1)"
          "if fst (waitForSwitch w (attempts + 1) ?tr1) = Inr True
           then \<exists>evs0 s. evs = evs0 @ [ChainIdRequest (Inr s)] \<and>
                  parseInt16 s = Some (celoSepolia_id w)
           else \<forall>e\<in>set evs. \<forall>r. e = ChainIdRequest r \<longrightarrow> \<not> on_target w r"
          by blast
        show ?thesis
          unfolding eq
          apply (rule exI[of _ "[Sleep 500, ChainIdRequest ?r] @ evs"])
          using evs True Inr no
          apply (auto simp: on_target_def split: if_splits)
          done
      qed
    qed
  qed
qed

subsection \<open>The switch with its fallbacks\<close>

lemma addFailedBecauseExists_new_Error [simp]:
  "\<not> addFailedBecauseExists (new_Error ''MetaMask is not installed'')"
  by (simp add: addFailedBecauseExists_def new_Error_def code_or_data_code_def
      message_or_empty_def)

lemma addFailedBecauseExists_alreadyRegistered:
  "addFailedBecauseExists e \<Longrightarrow> alreadyRegistered e"
  by (auto simp: addFailedBecauseExists_def alreadyRegistered_def Let_def)

text \<open>
  An error that \<open>addCeloNetwork\<close> lets through never satisfies the condition of the
  handler around it.
\<close>

lemma addCeloNetwork_frame:
  "\<exists>evs. snd (addCeloNetwork w tr) = tr @ evs \<and>
     (\<forall>e\<in>set evs. \<not> is_read e \<and> \<not> is_switch e \<and> \<not> is_write e \<and> \<not> is_sleep e) \<and>
     count_ev is_add evs \<le> 1 \<and>
     (\<forall>e. fst (addCeloNetwork w tr) = Inl e \<longrightarrow> \<not> addFailedBecauseExists e)"
  using addFailedBecauseExists_alreadyRegistered
  by (auto simp: addCeloNetwork_def getEthereum_def request_addChain_def Let_def
      split: option.splits)

lemma switchOrAdd_frame:
  "\<exists>evs. snd (switchOrAdd w tr) = tr @ evs \<and>
     (\<forall>e\<in>set evs. \<not> is_read e \<and> \<not> is_write e \<and> \<not> is_sleep e) \<and>
     count_ev is_add evs \<le> 1 \<and> count_ev is_switch evs \<le> 3"
proof -
  obtain r1 where sw1: "switchChain w tr = (r1, tr @ [SwitchRequest (celoSepolia_id w) r1])"
    by (simp add: switchChain_def Let_def)
  let ?tr1 = "tr @ [SwitchRequest (celoSepolia_id w) r1]"
  obtain evsA where A: "snd (addCeloNetwork w ?tr1) = ?tr1 @ evsA"
    "\<forall>e\<in>set evsA. \<not> is_read e \<and> \<not> is_switch e \<and> \<not> is_write e \<and> \<not> is_sleep e"
    "count_ev is_add evsA \<le> 1"
    using addCeloNetwork_frame[of w ?tr1] by blast
  have sA: "count_ev is_switch evsA = 0" using A(2) by (simp add: count_ev_none)
  show ?thesis
    using sw1 A sA
    by (cases "addCeloNetwork w ?tr1")
       (auto simp: switchOrAdd_def addThenSwitch_def switchChain_def Let_def
             split: option.splits sum.splits prod.splits)
qed

subsection \<open>ensureCeloNetwork as a whole\<close>

lemma ensureCeloNetwork_try_frame:
  "\<exists>evs. snd (ensureCeloNetwork_try w tr) = tr @ evs \<and>
     (\<forall>e\<in>set evs. \<not> is_write e) \<and>
     count_ev is_add evs \<le> 1 \<and> count_ev is_switch evs \<le> 3 \<and>
     count_ev is_read evs \<le> Suc maxAttempts \<and>
     count_ev is_sleep evs \<le> maxAttempts \<and>
     (if fst (ensureCeloNetwork_try w tr) = Inr True
      then \<exists>evs0 s. evs = evs0 @ [ChainIdRequest (Inr s)] \<and>
             parseInt16 s = Some (celoSepolia_id w)
      else \<forall>e\<in>set evs. \<forall>r. e = ChainIdRequest r \<longrightarrow> \<not> on_target w r)"
proof -
  let ?r = "eth_chainId w (count_ev is_read tr)"
  let ?tr1 = "tr @ [ChainIdRequest ?r]"
  have req: "request_chainId w tr = (?r, ?tr1)"
    by (simp add: request_chainId_def Let_def)
  show ?thesis
  proof (cases ?r)
    case (Inl e)
    then show ?thesis using req
      by (simp add: ensureCeloNetwork_try_def on_target_def)
  next
    case (Inr s)
    show ?thesis
    proof (cases "parseInt16 s = Some (celoSepolia_id w)")
      case True
      then show ?thesis using req Inr
        by (simp add: ensureCeloNetwork_try_def)
    next
      case False
      obtain evsS where S: "snd (switchOrAdd w ?tr1) = ?tr1 @ evsS"
        "\<forall>e\<in>set evsS. \<not> is_read e \<and> \<not> is_write e \<and> \<not> is_sleep e"
        "count_ev is_add evsS \<le> 1" "count_ev is_switch evsS \<le> 3"
        using switchOrAdd_frame[of w ?tr1] by blast
      have S0: "count_ev is_read evsS = 0" "count_ev is_sleep evsS = 0"
        using S(2) by (simp_all add: count_ev_none)
      let ?tr2 = "?tr1 @ evsS"
      show ?thesis
      proof (cases "fst (switchOrAdd w ?tr1)")
        case (Inl e)
        then have "ensureCeloNetwork_try w tr = (Inl e, ?tr2)"
          using req Inr False S(1)
          by (cases "switchOrAdd w ?tr1") (simp add: ensureCeloNetwork_try_def)
        then show ?thesis using S S0 Inr False
          by (auto simp: on_target_def)
      next
        case (Inr u)
        then have eq: "ensureCeloNetwork_try w tr = waitForSwitch w 0 ?tr2"
          using req \<open>?r = Inr s\<close> False S(1)
          by (cases "switchOrAdd w ?tr1") (simp add: ensureCeloNetwork_try_def)
        obtain evsW where W: "snd (waitForSwitch w 0 ?tr2) = ?tr2 @ evsW"
          "\<forall>e\<in>set evsW. \<not> is_get e \<and> \<not> is_switch e \<and> \<not> is_add e \<and> \<not> is_write e"
          "count_ev is_read evsW \<le> maxAttempts - 0"
          "count_ev is_sleep evsW \<le> maxAttempts - 0"
          "if fst (waitForSwitch w 0 ?tr2) = Inr True
           then \<exists>evs0 s. evsW = evs0 @ [ChainIdRequest (Inr s)] \<and>
                  parseInt16 s = Some (celoSepolia_id w)
           else \<forall>e\<in>set evsW. \<forall>r. e = ChainIdRequest r \<longrightarrow> \<not> on_target w r"
          using waitForSwitch_frame[of w 0 ?tr2] by blast
        have W0: "count_ev is_switch evsW = 0" "count_ev is_add evsW = 0"
          using W(2) by (simp_all add: count_ev_none)
        show ?thesis
          unfolding eq
          apply (rule exI[of _ "[ChainIdRequest ?r] @ evsS @ evsW"])
          using W S S0 W0 \<open>?r = Inr s\<close> False
          apply (auto simp: on_target_def split: if_splits)
          done
      qed
    qed
  qed
qed

text \<open>
  \<open>ensureCeloNetwork\<close> never throws. It writes no contract, issues at most one add
  request, three switch requests and eleven reads, and returns \<open>true\<close> exactly when
  the last thing it did was a read that answered the target chain.
\<close>

lemma ensureCeloNetwork_frame:
  "\<exists>b evs. ensureCeloNetwork w tr = (Inr b, tr @ evs) \<and>
     (\<forall>e\<in>set evs. \<not> is_write e) \<and>
     count_ev is_add evs \<le> 1 \<and> count_ev is_switch evs \<le> 3 \<and>
     count_ev is_read evs \<le> Suc maxAttempts \<and>
     count_ev is_sleep evs \<le> maxAttempts \<and>
     (if b
      then \<exists>evs0 s. evs = evs0 @ [ChainIdRequest (Inr s)] \<and>
             parseInt16 s = Some (celoSepolia_id w)
      else \<forall>e\<in>set evs. \<forall>r. e = ChainIdRequest r \<longrightarrow> \<not> on_target w r)"
proof (cases "window_ethereum w (count_ev is_get tr)")
  case False
  then have "ensureCeloNetwork w tr =
      (Inr False, tr @ [GetEthereum False, Alert ''MetaMask is not installed''])"
    by (simp add: ensureCeloNetwork_def getEthereum_def Let_def)
  then show ?thesis by auto
next
  case True
  let ?tr0 = "tr @ [GetEthereum True]"
  obtain evs where T: "snd (ensureCeloNetwork_try w ?tr0) = ?tr0 @ evs"
    "\<forall>e\<in>set evs. \<not> is_write e"
    "count_ev is_add evs \<le> 1" "count_ev is_switch evs \<le> 3"
    "count_ev is_read evs \<le> Suc maxAttempts"
    "count_ev is_sleep evs \<le> maxAttempts"
    "if fst (ensureCeloNetwork_try w ?tr0) = Inr True
     then \<exists>evs0 s. evs = evs0 @ [ChainIdRequest (Inr s)] \<and>
            parseInt16 s = Some (celoSepolia_id w)
     else \<forall>e\<in>set evs. \<forall>r. e = ChainIdRequest r \<longrightarrow> \<not> on_target w r"
    using ensureCeloNetwork_try_frame[of w ?tr0] by blast
  show ?thesis
  proof (cases "fst (ensureCeloNetwork_try w ?tr0)")
    case (Inl err)
    then show ?thesis using True T
      by (cases "ensureCeloNetwork_try w ?tr0")
         (auto simp: ensureCeloNetwork_def getEthereum_def Let_def)
  next
    case (Inr b)
    then have eq: "ensureCeloNetwork w tr = (Inr b, ?tr0 @ evs)"
      using True T(1)
      by (cases "ensureCeloNetwork_try w ?tr0")
         (simp add: ensureCeloNetwork_def getEthereum_def Let_def)
    show ?thesis
      unfolding eq
      apply (rule exI[of _ b], rule exI[of _ "[GetEthereum True] @ evs"])
      using T Inr
      apply (cases b)
       apply (auto split: if_splits)
      done
  qed
qed

lemma switchOrAdd_reads:
  assumes "switchOrAdd w tr = (r, tr2)"
  shows "count_ev is_read tr2 = count_ev is_read tr"
proof -
  obtain evs where "snd (switchOrAdd w tr) = tr @ evs"
    "\<forall>e\<in>set evs. \<not> is_read e \<and> \<not> is_write e \<and> \<not> is_sleep e"
    using switchOrAdd_frame[of w tr] by blast
  then show ?thesis using assms by (simp add: count_ev_none)
qed

lemma ensureCeloNetwork_after_switch:
  assumes "window_ethereum w (count_ev is_get tr)"
    and "eth_chainId w (count_ev is_read tr) = Inr s"
    and "parseInt16 s \<noteq> Some (celoSepolia_id w)"
    and "switchOrAdd w (tr @ [GetEthereum True, ChainIdRequest (Inr s)]) = (Inr (), tr2)"
  shows "ensureCeloNetwork w tr =
           (case waitForSwitch w 0 tr2 of
              (Inr b, tr3) \<Rightarrow> (Inr b, tr3)
            | (Inl error, tr3) \<Rightarrow>
                (Inr False,
                 tr3 @ [ConsoleError ''Error ensuring Celo network:'' error,
                        Alert (if code error = Some 4001
                               then ''Network switch was rejected. Please switch to Celo Sepolia manually.''
                               else ''Failed to switch to Celo Sepolia. Please switch manually in your wallet.'')]))"
  using assms
  by (simp add: ensureCeloNetwork_def ensureCeloNetwork_try_def getEthereum_def
      request_chainId_def Let_def)



text \<open>For the first switch request the rejection is final.\<close>

lemma ensureCeloNetwork_first_switch_rejected:
  assumes "window_ethereum w (count_ev is_get tr)"
    and "eth_chainId w (count_ev is_read tr) = Inr s"
    and "parseInt16 s \<noteq> Some (celoSepolia_id w)"
    and "wallet_switchChain w (count_ev is_switch tr) = Some e"
    and "code_or_data_code e \<noteq> Some 4902"
    and "tr1 = tr @ [GetEthereum True, ChainIdRequest (Inr s),
                    SwitchRequest (celoSepolia_id w) (Some e),
                    ConsoleError ''Error ensuring Celo network:'' e,
                    Alert (if code e = Some 4001
                           then ''Network switch was rejected. Please switch to Celo Sepolia manually.''
                           else ''Failed to switch to Celo Sepolia. Please switch manually in your wallet.'')]"
  shows "ensureCeloNetwork w tr = (Inr False, tr1) \<and> handleVerify w True tr = (Inr (), tr1)"
  using assms
  by (simp add: run_defs)

subsection \<open>Traces of handleVerify\<close>



subsection \<open>The refresh effect\<close>




text \<open>
  C2, as the code has it. When no provider handle is available, \<open>ensureCeloNetwork\<close>
  does not throw: it alerts "MetaMask is not installed" and resolves \<open>false\<close>, without a
  single request. A verify attempt started then ends after that alert (or, when the
  wallet is not connected, after the alert asking to connect), and makes no network
  call: no chain read, no switch, no add, no contract write.
\<close>

theorem ensureCeloNetwork_provider_missing:
  assumes "\<not> window_ethereum w (count_ev is_get tr)"
  shows "ensureCeloNetwork w tr =
           (Inr False, tr @ [GetEthereum False, Alert ''MetaMask is not installed'']) \<and>
         handleVerify w True tr =
           (Inr (), tr @ [GetEthereum False, Alert ''MetaMask is not installed'']) \<and>
         handleVerify w False tr =
           (Inr (), tr @ [Alert ''Please connect your wallet first.'']) \<and>
         count_ev is_network_call (snd (handleVerify w connected tr)) =
           count_ev is_network_call tr"
proof -
  have e: "ensureCeloNetwork w tr =
      (Inr False, tr @ [GetEthereum False, Alert ''MetaMask is not installed''])"
    using assms by (simp add: ensureCeloNetwork_def getEthereum_def Let_def)
  have t: "handleVerify w True tr =
      (Inr (), tr @ [GetEthereum False, Alert ''MetaMask is not installed''])"
    using e by (simp add: handleVerify_def handleVerify_try_def)
  have f: "handleVerify w False tr = (Inr (), tr @ [Alert ''Please connect your wallet first.''])"
    by (simp add: handleVerify_def handleVerify_try_def)
  have "count_ev is_network_call (snd (handleVerify w connected tr)) =
      count_ev is_network_call tr"
    using t f by (cases connected) (simp_all add: is_network_call_def)
  then show ?thesis using e t f by simp
qed

theorem ensureCeloNetwork_provider_missing_witness:
  "ensureCeloNetwork world_no_provider [] =
     (Inr False, [GetEthereum False, Alert ''MetaMask is not installed'']) \<and>
   handleVerify world_no_provider True [] =
     (Inr (), [GetEthereum False, Alert ''MetaMask is not installed''])"
  using ensureCeloNetwork_provider_missing [of world_no_provider "[]"]
  by (simp add: world_no_provider_def world_on_target_def)

text \<open>
  C2, as the claim states it, fails: with the provider absent the call does not reject,
  it resolves \<open>false\<close>.
\<close>

theorem ensureCeloNetwork_provider_missing_does_not_throw:
  "\<not> isl (fst (ensureCeloNetwork world_no_provider [])) \<and>
   fst (ensureCeloNetwork world_no_provider []) = Inr False"
  by (simp add: world_no_provider_def world_on_target_def run_defs)

text \<open>
  C3. If the provider already reports the target chain id when \<open>ensureCeloNetwork\<close> is
  called, the call resolves \<open>true\<close> right after the initial chain-id read: the only
  interactions are the look-up of the provider handle and that one read, so no switch
  request and no add request is issued.
\<close>

theorem ensureCeloNetwork_already_on_target:
  assumes "window_ethereum w (count_ev is_get tr)"
    and "eth_chainId w (count_ev is_read tr) = Inr s"
    and "parseInt16 s = Some (celoSepolia_id w)"
  shows "ensureCeloNetwork w tr = (Inr True, tr @ [GetEthereum True, ChainIdRequest (Inr s)])"
  using assms
  by (simp add: ensureCeloNetwork_def ensureCeloNetwork_try_def getEthereum_def
      request_chainId_def Let_def)


theorem ensureCeloNetwork_already_on_target_witness:
  "ensureCeloNetwork world_on_target [] =
     (Inr True, [GetEthereum True, ChainIdRequest (Inr ''0xaa044c'')])"
  using ensureCeloNetwork_already_on_target [of world_on_target "[]" "''0xaa044c''"]
  by (simp add: world_on_target_def parseInt16_def is_white_space_def strip_0x_def
      parse_digits_def hex_digit_def)






text \<open>
  C6. Once a switch request has been accepted, \<open>ensureCeloNetwork\<close> polls: each poll
  waits 500 ms and then reads the provider's chain id. It resolves \<open>true\<close> at the first
  read that answers the target, after exactly that many polls; when ten reads in a row
  answer another chain it alerts and resolves \<open>false\<close> after exactly ten polls; when a
  read fails, the failure is caught and the call resolves \<open>false\<close>. These cases are
  exhaustive, so the loop always ends within ten polls, and the call never throws.
\<close>

theorem ensureCeloNetwork_polls_after_switch:
  assumes "window_ethereum w (count_ev is_get tr)"
    and "eth_chainId w (count_ev is_read tr) = Inr s"
    and "parseInt16 s \<noteq> Some (celoSepolia_id w)"
    and "switchOrAdd w (tr @ [GetEthereum True, ChainIdRequest (Inr s)]) = (Inr (), tr2)"
    and "k = Suc (count_ev is_read tr)"
  shows "(\<forall>m<10. (\<forall>i<m. poll_goes_on w (k + i)) \<and> on_target w (eth_chainId w (k + m)) \<longrightarrow>
            ensureCeloNetwork w tr = (Inr True, tr2 @ polls w k (Suc m))) \<and>
         ((\<forall>i<10. poll_goes_on w (k + i)) \<longrightarrow>
            ensureCeloNetwork w tr =
              (Inr False,
               tr2 @ polls w k 10 @
                 [Alert ''Please approve the network switch in your wallet and try again.''])) \<and>
         (\<forall>m<10. \<forall>e. (\<forall>i<m. poll_goes_on w (k + i)) \<and> eth_chainId w (k + m) = Inl e \<longrightarrow>
            ensureCeloNetwork w tr =
              (Inr False,
               tr2 @ polls w k (Suc m) @
                 [ConsoleError ''Error ensuring Celo network:'' e,
                  Alert (if code e = Some 4001
                         then ''Network switch was rejected. Please switch to Celo Sepolia manually.''
                         else ''Failed to switch to Celo Sepolia. Please switch manually in your wallet.'')])) \<and>
         (\<exists>b evs. ensureCeloNetwork w tr = (Inr b, tr @ evs) \<and>
            count_ev is_sleep evs \<le> 10 \<and> count_ev is_read evs \<le> 11)"
proof -
  have k: "count_ev is_read tr2 = k"
    using switchOrAdd_reads[OF assms(4)] assms(5) by simp
  note run = ensureCeloNetwork_after_switch[OF assms(1-4)]
  have A: "ensureCeloNetwork w tr = (Inr True, tr2 @ polls w k (Suc m))"
    if "m < 10" "\<forall>i<m. poll_goes_on w (k + i)" "on_target w (eth_chainId w (k + m))" for m
    using waitForSwitch_match[of m w tr2] that k run by (simp add: maxAttempts_def)
  have B: "ensureCeloNetwork w tr =
      (Inr False, tr2 @ polls w k 10 @
         [Alert ''Please approve the network switch in your wallet and try again.''])"
    if "\<forall>i<10. poll_goes_on w (k + i)"
    using waitForSwitch_timeout[of w tr2] that k run by (simp add: maxAttempts_def)
  have C: "ensureCeloNetwork w tr =
      (Inr False, tr2 @ polls w k (Suc m) @
         [ConsoleError ''Error ensuring Celo network:'' e,
          Alert (if code e = Some 4001
                 then ''Network switch was rejected. Please switch to Celo Sepolia manually.''
                 else ''Failed to switch to Celo Sepolia. Please switch manually in your wallet.'')])"
    if "m < 10" "\<forall>i<m. poll_goes_on w (k + i)" "eth_chainId w (k + m) = Inl e" for m e
    using waitForSwitch_error[of m w tr2 e] that k run by (simp add: maxAttempts_def)
  have D: "\<exists>b evs. ensureCeloNetwork w tr = (Inr b, tr @ evs) \<and>
      count_ev is_sleep evs \<le> 10 \<and> count_ev is_read evs \<le> 11"
    using ensureCeloNetwork_frame[of w tr] by (auto simp: maxAttempts_def)
  show ?thesis using A B C D by blast
qed

theorem ensureCeloNetwork_polls_after_switch_witness:
  "ensureCeloNetwork world_unknown_chain [] =
     (Inr True,
      [GetEthereum True, ChainIdRequest (Inr ''0x1''),
       SwitchRequest 11142220 (Some err_unrecognized),
       GetEthereum True, AddRequest 11142220 None, SwitchRequest 11142220 None,
       Sleep 500, ChainIdRequest (Inr ''0xaa044c'')]) \<and>
   ensureCeloNetwork world_stuck [] =
     (Inr False,
      [GetEthereum True, ChainIdRequest (Inr ''0x1''), SwitchRequest 11142220 None] @
      polls world_stuck 1 10 @
      [Alert ''Please approve the network switch in your wallet and try again.''])"
proof -
  let ?tr2 = "[GetEthereum True, ChainIdRequest (Inr ''0x1''),
       SwitchRequest 11142220 (Some err_unrecognized),
       GetEthereum True, AddRequest 11142220 None, SwitchRequest 11142220 None]"
  have "(\<forall>m<10. (\<forall>i<m. poll_goes_on world_unknown_chain (1 + i)) \<and>
            on_target world_unknown_chain (eth_chainId world_unknown_chain (1 + m)) \<longrightarrow>
            ensureCeloNetwork world_unknown_chain [] =
              (Inr True, ?tr2 @ polls world_unknown_chain 1 (Suc m)))"
    using ensureCeloNetwork_polls_after_switch
            [of world_unknown_chain "[]" "''0x1''" ?tr2 1]
    by (simp add: world_unknown_chain_def world_switching_def world_on_target_def
        switchOrAdd_def switchChain_def addThenSwitch_def addCeloNetwork_def
        request_addChain_def getEthereum_def Let_def parse_defs error_defs)
  from this[rule_format, of 0]
  have one: "ensureCeloNetwork world_unknown_chain [] =
      (Inr True, ?tr2 @ polls world_unknown_chain 1 (Suc 0))"
    by (simp add: on_target_def world_unknown_chain_def world_switching_def
        world_on_target_def parse_defs)
  let ?tr3 = "[GetEthereum True, ChainIdRequest (Inr ''0x1''), SwitchRequest 11142220 None]"
  have "(\<forall>i<10. poll_goes_on world_stuck (1 + i)) \<longrightarrow>
      ensureCeloNetwork world_stuck [] =
        (Inr False, ?tr3 @ polls world_stuck 1 10 @
           [Alert ''Please approve the network switch in your wallet and try again.''])"
    using ensureCeloNetwork_polls_after_switch [of world_stuck "[]" "''0x1''" ?tr3 1]
    by (simp add: world_stuck_def world_on_target_def switchOrAdd_def switchChain_def
        Let_def parse_defs)
  then have two: "ensureCeloNetwork world_stuck [] =
        (Inr False, ?tr3 @ polls world_stuck 1 10 @
           [Alert ''Please approve the network switch in your wallet and try again.''])"
    by (simp add: poll_goes_on_def world_stuck_def world_on_target_def parse_defs)
  show ?thesis using one two
    by (simp add: polls_def world_unknown_chain_def world_switching_def world_on_target_def)
qed







text \<open>
  C10. When \<open>ensureCeloNetwork\<close> has succeeded and the provider handle is absent at the
  look-up that precedes the final chain check, \<open>handleVerify\<close> reads no chain id and
  shows no alert before submitting: the contract write follows the look-up directly.
\<close>

theorem handleVerify_skips_check_without_provider:
  assumes "ensureCeloNetwork w tr = (Inr True, tr1)"
    and "\<not> window_ethereum w (count_ev is_get tr1)"
  shows "handleVerify w True tr =
           (Inr (),
            tr1 @ [GetEthereum False, WriteContract (write_verifyUser w (count_ev is_write tr1))] @
              (case write_verifyUser w (count_ev is_write tr1) of
                 Inr txHash \<Rightarrow>
                   [ConsoleLog [''Verification transaction sent:'', txHash],
                    Alert ''Verification transaction sent.'']
               | Inl error \<Rightarrow>
                   [ConsoleError ''Error verifying user:'' error,
                    Alert (if (case message error of
                                 None \<Rightarrow> False
                               | Some m \<Rightarrow> str_includes m ''chain'' \<or> str_includes m ''network'')
                           then ''Transaction failed. Please ensure you are on Celo Sepolia network.''
                           else ''Verification failed. Check console for details.'')]))"
  using assms
  by (simp add: handleVerify_def handleVerify_try_def handleVerify_submit_def getEthereum_def writeContract_def Let_def
      split: sum.splits)

theorem handleVerify_skips_check_without_provider_witness:
  "handleVerify world_provider_gone True [] =
     (Inr (),
      [GetEthereum True, ChainIdRequest (Inr ''0xaa044c''),
       GetEthereum False, WriteContract (Inr ''0xabc''),
       ConsoleLog [''Verification transaction sent:'', ''0xabc''],
       Alert ''Verification transaction sent.''])"
proof -
  have run: "ensureCeloNetwork world_provider_gone [] =
      (Inr True, [GetEthereum True, ChainIdRequest (Inr ''0xaa044c'')])"
    by (simp add: world_provider_gone_def world_on_target_def run_defs parse_defs)
  from handleVerify_skips_check_without_provider [OF run] show ?thesis
    by (simp add: world_provider_gone_def world_on_target_def)
qed

end
